theory Spec2Isabelle
  imports Main
begin

section \<open>Stored data (end\_call/models.py)\<close>

text \<open>
  A \<open>ChatMessage\<close> row. The role is a \<open>CharField\<close>: a Python string that takes one of the
  values of \<open>ROLE_CHOICES\<close>; the formatters compare it with string literals, and so does the
  model. Timestamps are clock readings, modelled as natural numbers.
\<close>

record chat_message =
  msg_id :: nat
  msg_session :: nat
  role :: string
  content :: string
  timestamp :: nat

definition ROLE_CHOICES :: "string list" where
  "ROLE_CHOICES = [''system'', ''user'', ''assistant'']"

definition newline :: string where
  "newline = [CHR 0x0A]"

section \<open>Message formatters (end\_call/ai\_clients.py)\<close>

text \<open>
  Every \<open>print\<close> of the formatters is a warning written to the console. The model collects
  them, in order, in a list that is returned beside the request body.
\<close>

datatype warning =
    ConsecutiveAssistant nat
  | UnexpectedSequence string "string option" nat
  | SystemIgnored nat
  | LastIsModel
  | FirstNotUser

subsection \<open>GoogleClient.format\_messages\<close>

text \<open>
  An entry of \<open>contents\<close> is \<open>{"role": r, "parts": [{"text": t}]}\<close>; the list of parts always
  has exactly one element, so an entry is the pair \<open>(r, t)\<close>. The loop state holds
  \<open>contents\<close>, \<open>last_role\<close> (\<open>None\<close> before the first emitted turn) and the warnings.
  The variable \<open>current_content\<close> is only ever the entry appended last and is never read.
\<close>

type_synonym turn = "string \<times> string"

record gstate =
  contents :: "turn list"
  last_role :: "string option"
  warnings :: "warning list"

definition google_init :: gstate where
  "google_init = \<lparr>contents = [], last_role = None, warnings = []\<rparr>"

definition google_step :: "gstate \<Rightarrow> chat_message \<Rightarrow> gstate" where
  "google_step s m =
     (if role m = ''user'' then
        s\<lparr>contents := contents s @ [(''user'', content m)], last_role := Some ''user''\<rparr>
      else if role m = ''assistant'' then
        (if last_role s = Some ''user'' then
           s\<lparr>contents := contents s @ [(''model'', content m)], last_role := Some ''model''\<rparr>
         else if contents s \<noteq> [] \<and> fst (last (contents s)) = ''model'' then
           s\<lparr>contents := butlast (contents s)
                  @ [(''model'', snd (last (contents s)) @ newline @ content m)],
             warnings := warnings s @ [ConsecutiveAssistant (msg_id m)]\<rparr>
         else
           s\<lparr>warnings := warnings s @ [ConsecutiveAssistant (msg_id m),
                  UnexpectedSequence (role m) (last_role s) (msg_id m)]\<rparr>)
      else if role m = ''system'' then
        s\<lparr>warnings := warnings s @ [SystemIgnored (msg_id m)]\<rparr>
      else s)"

definition google_loop :: "chat_message list \<Rightarrow> gstate \<Rightarrow> gstate" where
  "google_loop ms s = fold (\<lambda>m s. google_step s m) ms s"

text \<open>The returned body \<open>{"contents": contents}\<close> and the warnings printed on the way.\<close>

definition google_format_messages :: "chat_message list \<Rightarrow> turn list \<times> warning list" where
  "google_format_messages ms =
     (let s = google_loop ms google_init
      in (contents s,
          warnings s @ (if contents s \<noteq> [] \<and> fst (last (contents s)) = ''model''
                        then [LastIsModel] else [])))"

text \<open>
  The text that further assistant messages add to an open "model" turn: each one is appended
  after a newline.
\<close>

definition merged_text :: "chat_message list \<Rightarrow> string" where
  "merged_text ms = concat (map (\<lambda>m. newline @ content m) (filter (\<lambda>m. role m = ''assistant'') ms))"

definition not_user :: "chat_message \<Rightarrow> bool" where
  "not_user m \<longleftrightarrow> role m \<noteq> ''user''"

definition mk_msg :: "nat \<Rightarrow> string \<Rightarrow> string \<Rightarrow> chat_message" where
  "mk_msg i r c = \<lparr>msg_id = i, msg_session = 1, role = r, content = c, timestamp = i\<rparr>"

subsection \<open>OpenAIClient.format\_messages\<close>

definition openai_format_messages :: "chat_message list \<Rightarrow> turn list" where
  "openai_format_messages ms =
     map (\<lambda>msg. (role msg, content msg))
       (filter (\<lambda>msg. role msg \<in> set [''user'', ''assistant'', ''system'']) ms)"

subsection \<open>AnthropicClient.format\_messages\<close>

text \<open>
  The loop state is the pair of \<open>formatted\<close> and \<open>system_prompt\<close>. The returned dictionary
  \<open>{"messages": formatted, "system": system_prompt}\<close> is a record. The function has no
  \<open>raise\<close>: the one after the warning is commented out in the source.
\<close>

record anthropic_data =
  a_messages :: "turn list"
  a_system :: "string option"

definition anthropic_step :: "turn list \<times> string option \<Rightarrow> chat_message
    \<Rightarrow> turn list \<times> string option" where
  "anthropic_step st msg =
     (case st of (formatted, system_prompt) \<Rightarrow>
        if role msg = ''system'' then
          (formatted, if system_prompt = None then Some (content msg) else system_prompt)
        else if role msg \<in> set [''user'', ''assistant''] then
          (formatted @ [(role msg, content msg)], system_prompt)
        else (formatted, system_prompt))"

definition anthropic_format_messages :: "chat_message list \<Rightarrow> anthropic_data \<times> warning list" where
  "anthropic_format_messages ms =
     (case fold (\<lambda>m st. anthropic_step st m) ms ([], None) of
        (formatted, system_prompt) \<Rightarrow>
          (\<lparr>a_messages = formatted, a_system = system_prompt\<rparr>,
           if formatted = [] \<or> fst (hd formatted) \<noteq> ''user'' then [FirstNotUser] else []))"

text \<open>The first system message of a history, if there is one.\<close>

definition first_system :: "chat_message list \<Rightarrow> string option" where
  "first_system ms =
     (case filter (\<lambda>m. role m = ''system'') ms of [] \<Rightarrow> None | m # _ \<Rightarrow> Some (content m))"

section \<open>Python values and exceptions\<close>

text \<open>
  A decoded JSON document (\<open>response.json()\<close>): \<open>null\<close> is Python's \<open>None\<close>. Numbers are
  integers here; the parsers only test a number for being zero and otherwise fail on it the
  same way for every number.
\<close>

datatype json =
    JNull
  | JBool bool
  | JNum int
  | JStr string
  | JArr "json list"
  | JObj "(string \<times> json) list"

text \<open>
  The payload of a \<open>ValueError\<close> raised by this repository. The source formats it into a
  message string; the model keeps the values that go into the message.
\<close>

datatype value_error =
    MissingApiKey string
  | UnsupportedService string
  | EmptyPayload
  | ParseFailed string
  | ApiError string json
  | GoogleApiError json "(json \<times> json) option"
  | SafetyBlocked json

datatype exc =
    KeyError
  | IndexError
  | TypeError
  | AttributeError
  | ValueError value_error
  | RequestException string
  | OtherException string

definition ebind :: "exc + 'a \<Rightarrow> ('a \<Rightarrow> exc + 'b) \<Rightarrow> exc + 'b" where
  "ebind x f = (case x of Inl e \<Rightarrow> Inl e | Inr v \<Rightarrow> f v)"

subsection \<open>Strings\<close>

text \<open>
  A character is its code point, for code points below 256. \<open>str.isspace\<close> holds there for
  the code points 9 to 13, 28 to 32, 133 and 160; \<open>str.strip()\<close> removes such characters at
  both ends.
\<close>

definition py_isspace :: "char \<Rightarrow> bool" where
  "py_isspace c =
     (let n = (of_char c :: nat)
      in (9 \<le> n \<and> n \<le> 13) \<or> (28 \<le> n \<and> n \<le> 32) \<or> n = 133 \<or> n = 160)"

definition py_strip :: "string \<Rightarrow> string" where
  "py_strip s = rev (dropWhile py_isspace (rev (dropWhile py_isspace s)))"

text \<open>\<open>str.upper()\<close> on the letters of ASCII, which is what service names are made of.\<close>

definition upper_char :: "char \<Rightarrow> char" where
  "upper_char c =
     (case map_of (zip ''abcdefghijklmnopqrstuvwxyz'' ''ABCDEFGHIJKLMNOPQRSTUVWXYZ'') c of
        None \<Rightarrow> c | Some u \<Rightarrow> u)"

definition py_upper :: "string \<Rightarrow> string" where
  "py_upper s = map upper_char s"

text \<open>\<open>needle in haystack\<close> for two strings.\<close>

fun is_substring :: "string \<Rightarrow> string \<Rightarrow> bool" where
  "is_substring needle [] = (needle = [])"
| "is_substring needle (c # cs) =
     (take (length needle) (c # cs) = needle \<or> is_substring needle cs)"

subsection \<open>Operations on decoded JSON\<close>

fun py_truthy :: "json \<Rightarrow> bool" where
  "py_truthy JNull = False"
| "py_truthy (JBool b) = b"
| "py_truthy (JNum n) = (n \<noteq> 0)"
| "py_truthy (JStr s) = (s \<noteq> [])"
| "py_truthy (JArr xs) = (xs \<noteq> [])"
| "py_truthy (JObj d) = (d \<noteq> [])"

text \<open>\<open>x[k]\<close> for a string key \<open>k\<close>.\<close>

fun py_getitem :: "json \<Rightarrow> string \<Rightarrow> exc + json" where
  "py_getitem (JObj d) k = (case map_of d k of None \<Rightarrow> Inl KeyError | Some v \<Rightarrow> Inr v)"
| "py_getitem _ k = Inl TypeError"

text \<open>\<open>x[0]\<close>. The keys of a decoded JSON object are strings, so \<open>0\<close> is never one of them.\<close>

fun py_getitem0 :: "json \<Rightarrow> exc + json" where
  "py_getitem0 (JArr []) = Inl IndexError"
| "py_getitem0 (JArr (x # xs)) = Inr x"
| "py_getitem0 (JStr []) = Inl IndexError"
| "py_getitem0 (JStr (c # cs)) = Inr (JStr [c])"
| "py_getitem0 (JObj d) = Inl KeyError"
| "py_getitem0 _ = Inl TypeError"

text \<open>\<open>x.get(k, default)\<close>: only a dictionary has the method.\<close>

fun py_get :: "json \<Rightarrow> string \<Rightarrow> json \<Rightarrow> exc + json" where
  "py_get (JObj d) k dflt = Inr (case map_of d k of None \<Rightarrow> dflt | Some v \<Rightarrow> v)"
| "py_get _ k dflt = Inl AttributeError"

text \<open>\<open>k in x\<close> for a string \<open>k\<close>.\<close>

fun py_contains :: "string \<Rightarrow> json \<Rightarrow> exc + bool" where
  "py_contains k (JObj d) = Inr (k \<in> set (map fst d))"
| "py_contains k (JArr xs) = Inr (JStr k \<in> set xs)"
| "py_contains k (JStr s) = Inr (is_substring k s)"
| "py_contains k _ = Inl TypeError"

text \<open>\<open>x.strip()\<close>: only a string has the method.\<close>

fun py_strip_method :: "json \<Rightarrow> exc + string" where
  "py_strip_method (JStr s) = Inr (py_strip s)"
| "py_strip_method _ = Inl AttributeError"

text \<open>The elements that \<open>for part in x\<close> runs through.\<close>

fun py_iter :: "json \<Rightarrow> exc + json list" where
  "py_iter (JArr xs) = Inr xs"
| "py_iter (JObj d) = Inr (map (\<lambda>kv. JStr (fst kv)) d)"
| "py_iter (JStr s) = Inr (map (\<lambda>c. JStr [c]) s)"
| "py_iter _ = Inl TypeError"

text \<open>\<open>sep.join(xs)\<close>: every element has to be a string.\<close>

fun py_join :: "string \<Rightarrow> json list \<Rightarrow> exc + string" where
  "py_join sep [] = Inr []"
| "py_join sep [JStr s] = Inr s"
| "py_join sep (JStr s # x # xs) = ebind (py_join sep (x # xs)) (\<lambda>r. Inr (s @ sep @ r))"
| "py_join sep (_ # xs) = Inl TypeError"

text \<open>
  \<open>message += f"..."\<close>: a string or a list on the left takes the addition, every other value
  raises \<open>TypeError\<close>.
\<close>

fun py_iadd_str :: "json \<Rightarrow> exc + unit" where
  "py_iadd_str (JStr s) = Inr ()"
| "py_iadd_str (JArr xs) = Inr ()"
| "py_iadd_str _ = Inl TypeError"

section \<open>Response parsers (end\_call/ai\_clients.py)\<close>

text \<open>
  The clause \<open>except (KeyError, IndexError, TypeError)\<close> of the three parsers: these become
  the parse failure of the provider, every other exception passes.
\<close>

fun catch_parse :: "string \<Rightarrow> exc + 'a \<Rightarrow> exc + 'a" where
  "catch_parse p (Inl KeyError) = Inl (ValueError (ParseFailed p))"
| "catch_parse p (Inl IndexError) = Inl (ValueError (ParseFailed p))"
| "catch_parse p (Inl TypeError) = Inl (ValueError (ParseFailed p))"
| "catch_parse p x = x"

text \<open>The result of a parser is the text, or \<open>None\<close>.\<close>

definition openai_parse_response :: "json \<Rightarrow> exc + string option" where
  "openai_parse_response response_data = catch_parse ''OpenAI''
     (ebind (py_contains ''error'' response_data) (\<lambda>has_error.
        if has_error then
          ebind (py_getitem response_data ''error'') (\<lambda>error_details.
          ebind (py_get error_details ''message'' (JStr ''Unknown error'')) (\<lambda>message.
            Inl (ValueError (ApiError ''OpenAI'' message))))
        else
          ebind (py_getitem response_data ''choices'') (\<lambda>choices.
          ebind (py_getitem0 choices) (\<lambda>choice.
          ebind (py_getitem choice ''message'') (\<lambda>message.
          ebind (py_getitem message ''content'') (\<lambda>content.
            if py_truthy content
            then ebind (py_strip_method content) (\<lambda>t. Inr (Some t))
            else Inr None))))))"

definition anthropic_parse_response :: "json \<Rightarrow> exc + string option" where
  "anthropic_parse_response response_data = catch_parse ''Anthropic''
     (ebind (py_get response_data ''type'' JNull) (\<lambda>ty.
        if ty = JStr ''error'' then
          ebind (py_get response_data ''error'' (JObj [])) (\<lambda>error_details.
          ebind (py_get error_details ''message'' (JStr ''Unknown error'')) (\<lambda>message.
            Inl (ValueError (ApiError ''Anthropic'' message))))
        else
          ebind (py_getitem response_data ''content'') (\<lambda>blocks.
          ebind (py_getitem0 blocks) (\<lambda>content_block.
          ebind (py_getitem content_block ''type'') (\<lambda>block_type.
            if block_type = JStr ''text'' then
              ebind (py_getitem content_block ''text'') (\<lambda>text.
              ebind (py_strip_method text) (\<lambda>t. Inr (Some t)))
            else Inr None)))))"

text \<open>\<open>[part['text'] for part in parts if 'text' in part]\<close>\<close>

fun google_text_parts :: "json list \<Rightarrow> exc + json list" where
  "google_text_parts [] = Inr []"
| "google_text_parts (part # parts) =
     ebind (py_contains ''text'' part) (\<lambda>has_text.
       if has_text then
         ebind (py_getitem part ''text'') (\<lambda>t.
         ebind (google_text_parts parts) (\<lambda>ts. Inr (t # ts)))
       else google_text_parts parts)"

definition google_parse_response :: "json \<Rightarrow> exc + string option" where
  "google_parse_response response_data = catch_parse ''Google''
     (ebind (py_get response_data ''candidates'' JNull) (\<lambda>candidates.
        if \<not> py_truthy candidates then
          ebind (py_get response_data ''error'' (JObj [])) (\<lambda>error_info.
          ebind (py_get error_info ''message''
                  (JStr ''Unknown Google API error, response did not contain candidates.''))
            (\<lambda>message.
          ebind (py_get response_data ''promptFeedback'' JNull) (\<lambda>prompt_feedback.
            if py_truthy prompt_feedback then
              ebind (py_get prompt_feedback ''blockReason'' JNull) (\<lambda>block_reason.
                if py_truthy block_reason then
                  ebind (py_iadd_str message) (\<lambda>_.
                  ebind (py_get prompt_feedback ''safetyRatings'' (JArr [])) (\<lambda>safety_ratings.
                    Inl (ValueError (GoogleApiError message (Some (block_reason, safety_ratings))))))
                else Inl (ValueError (GoogleApiError message None)))
            else Inl (ValueError (GoogleApiError message None)))))
        else
          ebind (py_getitem response_data ''candidates'') (\<lambda>cands.
          ebind (py_getitem0 cands) (\<lambda>candidate.
          ebind (py_get candidate ''finishReason'' JNull) (\<lambda>finish_reason.
          ebind (if finish_reason \<notin> set [JStr ''STOP'', JStr ''MAX_TOKENS'', JNull]
                    \<and> finish_reason = JStr ''SAFETY''
                 then ebind (py_get candidate ''safetyRatings'' (JArr [])) (\<lambda>safety_ratings.
                        Inl (ValueError (SafetyBlocked safety_ratings)))
                 else Inr ()) (\<lambda>_.
          ebind (py_getitem candidate ''content'') (\<lambda>content.
          ebind (py_get content ''parts'' (JArr [])) (\<lambda>parts.
          ebind (py_iter parts) (\<lambda>part_list.
          ebind (google_text_parts part_list) (\<lambda>text_parts.
          ebind (py_join newline text_parts) (\<lambda>full_text.
            if full_text \<noteq> [] then Inr (Some (py_strip full_text)) else Inr None)))))))))))"

section \<open>Credential resolver\<close>

text \<open>
  What a request meets outside the program: the Fernet key of the process
  (\<open>fernet.decrypt(blob).decode()\<close>, which returns the plaintext or raises), the attributes
  of the Django settings (an attribute may exist and be \<open>None\<close>), the process environment,
  the provider behind \<open>requests.post\<close>, and the clock readings taken when the rows of this
  request are written.
\<close>

record http_request =
  url :: string
  headers :: "(string \<times> string) list"
  payload :: json

record env =
  fernet_decrypt :: "string \<Rightarrow> exc + string"
  settings_attr :: "string \<Rightarrow> string option option"
  environ :: "string \<Rightarrow> string option"
  http_post :: "http_request \<Rightarrow> exc + json"
  t_user_message :: nat
  t_ai_message :: nat
  t_session_save :: nat

record chat_session =
  owner :: nat
  title :: string
  ai_model_identifier :: string
  created_at :: nat
  updated_at :: nat

text \<open>
  The tables. \<open>UserAPIKey\<close> is unique in \<open>(user, service_name)\<close>, so the table is a map from
  that pair to the encrypted key; \<open>objects.get\<close> raises \<open>DoesNotExist\<close> where the map has no
  entry.
\<close>

record db =
  user_api_keys :: "nat \<times> string \<Rightarrow> string option"
  sessions :: "nat \<Rightarrow> chat_session option"
  messages :: "chat_message list"

text \<open>Truth value of a string or \<open>None\<close>.\<close>

definition str_truthy :: "string option \<Rightarrow> bool" where
  "str_truthy x = (case x of None \<Rightarrow> False | Some s \<Rightarrow> s \<noteq> [])"

text \<open>\<open>UserAPIKey.get_api_key\<close> (end\_call/models.py): every exception of the decryption is caught.\<close>

definition get_api_key :: "env \<Rightarrow> string \<Rightarrow> string option" where
  "get_api_key e encrypted_api_key =
     (if encrypted_api_key = [] then None
      else case fernet_decrypt e encrypted_api_key of
             Inr k \<Rightarrow> Some k
           | Inl err \<Rightarrow> None)"

text \<open>\<open>getattr(settings, name, os.getenv(name))\<close>\<close>

definition system_key_lookup :: "env \<Rightarrow> string \<Rightarrow> string option" where
  "system_key_lookup e name =
     (case settings_attr e name of Some v \<Rightarrow> v | None \<Rightarrow> environ e name)"

definition get_api_key_for_service :: "env \<Rightarrow> db \<Rightarrow> nat \<Rightarrow> string \<Rightarrow> string option" where
  "get_api_key_for_service e d user service_name =
     (let decrypted_key =
            (case user_api_keys d (user, service_name) of
               None \<Rightarrow> None
             | Some encrypted \<Rightarrow> get_api_key e encrypted)
      in if str_truthy decrypted_key then decrypted_key
         else
           (let system_key = system_key_lookup e (py_upper service_name @ ''_API_KEY'')
            in if str_truthy system_key then system_key else None))"

section \<open>Provider clients\<close>

datatype client_class = OpenAIClient | AnthropicClient | GoogleClient

record client =
  cls :: client_class
  c_user :: nat
  model_identifier :: string
  service_name :: string
  api_key :: string

text \<open>\<open>model_identifier.split('_')[0]\<close>\<close>

definition extract_service_name :: "string \<Rightarrow> string" where
  "extract_service_name model_id = takeWhile (\<lambda>c. c \<noteq> CHR ''_'') model_id"

text \<open>\<open>parts = model_identifier.split('_', 1)\<close>, then \<open>parts[1]\<close> if there is one.\<close>

definition get_model_name :: "string \<Rightarrow> string option" where
  "get_model_name model_id =
     (if CHR ''_'' \<in> set model_id
      then Some (tl (dropWhile (\<lambda>c. c \<noteq> CHR ''_'') model_id))
      else None)"

definition BaseAIClient_init :: "env \<Rightarrow> db \<Rightarrow> client_class \<Rightarrow> nat \<Rightarrow> string \<Rightarrow> exc + client" where
  "BaseAIClient_init e d c user model_id =
     (let svc = extract_service_name model_id;
          k = get_api_key_for_service e d user svc
      in case k of
           None \<Rightarrow> Inl (ValueError (MissingApiKey svc))
         | Some key \<Rightarrow>
             if key = [] then Inl (ValueError (MissingApiKey svc))
             else Inr \<lparr>cls = c, c_user = user, model_identifier = model_id,
                       service_name = svc, api_key = key\<rparr>)"

definition get_ai_client :: "env \<Rightarrow> db \<Rightarrow> nat \<Rightarrow> string \<Rightarrow> exc + client" where
  "get_ai_client e d user model_id =
     (let svc = extract_service_name model_id
      in if svc = ''openai'' then BaseAIClient_init e d OpenAIClient user model_id
         else if svc = ''anthropic'' then BaseAIClient_init e d AnthropicClient user model_id
         else if svc = ''google'' then BaseAIClient_init e d GoogleClient user model_id
         else Inl (ValueError (UnsupportedService svc)))"

text \<open>What \<open>format_messages\<close> returns, by client class.\<close>

datatype formatted =
    OpenAIMessages "turn list"
  | AnthropicData anthropic_data
  | GoogleData "turn list"

definition format_messages :: "client \<Rightarrow> chat_message list \<Rightarrow> formatted" where
  "format_messages c ms =
     (case cls c of
        OpenAIClient \<Rightarrow> OpenAIMessages (openai_format_messages ms)
      | AnthropicClient \<Rightarrow> AnthropicData (fst (anthropic_format_messages ms))
      | GoogleClient \<Rightarrow> GoogleData (fst (google_format_messages ms)))"

text \<open>
  \<open>not formatted_messages\<close>: an empty list is false; the dictionaries of the other two
  clients always have keys and are true.
\<close>

fun formatted_truthy :: "formatted \<Rightarrow> bool" where
  "formatted_truthy (OpenAIMessages ms) = (ms \<noteq> [])"
| "formatted_truthy (AnthropicData a) = True"
| "formatted_truthy (GoogleData cs) = True"

definition json_of_model :: "string option \<Rightarrow> json" where
  "json_of_model m = (case m of None \<Rightarrow> JNull | Some n \<Rightarrow> JStr n)"

definition json_of_turn :: "turn \<Rightarrow> json" where
  "json_of_turn t = JObj [(''role'', JStr (fst t)), (''content'', JStr (snd t))]"

definition json_of_google_turn :: "turn \<Rightarrow> json" where
  "json_of_google_turn t =
     JObj [(''role'', JStr (fst t)), (''parts'', JArr [JObj [(''text'', JStr (snd t))]])]"

text \<open>
  \<open>GoogleClient._get_model_name_for_api\<close>: the table is looked up under
  \<open>"google_" + name\<close>, with the name itself as default. The dictionary literal of the
  source repeats its first key; a dictionary keeps one entry for it.
\<close>

definition model_map :: "(string \<times> string) list" where
  "model_map =
     [(''gemini-2.0-flash'', ''gemini-2.0-flash''),
      (''gemini-2.5-pro-preview-03-25'', ''gemini-2.5-pro-preview-03-25'')]"

definition str_of_model :: "string option \<Rightarrow> string" where
  "str_of_model m = (case m of None \<Rightarrow> ''None'' | Some n \<Rightarrow> n)"

definition get_model_name_for_api :: "client \<Rightarrow> string option" where
  "get_model_name_for_api c =
     (let internal_name = get_model_name (model_identifier c)
      in case map_of model_map (''google_'' @ str_of_model internal_name) of
           None \<Rightarrow> internal_name
         | Some n \<Rightarrow> Some n)"

text \<open>
  \<open>call_api\<close>: the request that is posted. The answer is the provider's:
  \<open>http_post\<close> stands for \<open>requests.post\<close>, \<open>raise_for_status\<close> and \<open>response.json()\<close>,
  and the \<open>except\<close> clause logs and raises the same exception again.
\<close>

definition build_request :: "client \<Rightarrow> formatted \<Rightarrow> http_request" where
  "build_request c f =
     (case f of
        OpenAIMessages ms \<Rightarrow>
          \<lparr>url = ''https://api.openai.com/v1/chat/completions'',
           headers = [(''Authorization'', ''Bearer '' @ api_key c),
                      (''Content-Type'', ''application/json'')],
           payload = JObj [(''model'', json_of_model (get_model_name (model_identifier c))),
                           (''messages'', JArr (map json_of_turn ms))]\<rparr>
      | AnthropicData a \<Rightarrow>
          \<lparr>url = ''https://api.anthropic.com/v1/messages'',
           headers = [(''x-api-key'', api_key c),
                      (''anthropic-version'', ''2023-06-01''),
                      (''Content-Type'', ''application/json'')],
           payload = JObj ([(''model'', json_of_model (get_model_name (model_identifier c))),
                            (''messages'', JArr (map json_of_turn (a_messages a))),
                            (''max_tokens'', JNum 1024)]
                           @ (case a_system a of
                                None \<Rightarrow> []
                              | Some sp \<Rightarrow> if sp = [] then [] else [(''system'', JStr sp)]))\<rparr>
      | GoogleData cs \<Rightarrow>
          \<lparr>url = ''https://generativelanguage.googleapis.com/v1beta/models/''
                   @ str_of_model (get_model_name_for_api c) @ '':generateContent'',
           headers = [(''x-goog-api-key'', api_key c),
                      (''Content-Type'', ''application/json'')],
           payload = JObj [(''contents'', JArr (map json_of_google_turn cs))]\<rparr>)"

definition call_api :: "env \<Rightarrow> client \<Rightarrow> formatted \<Rightarrow> exc + json" where
  "call_api e c f = http_post e (build_request c f)"

definition parse_response :: "client \<Rightarrow> json \<Rightarrow> exc + string option" where
  "parse_response c response_data =
     (case cls c of
        OpenAIClient \<Rightarrow> openai_parse_response response_data
      | AnthropicClient \<Rightarrow> anthropic_parse_response response_data
      | GoogleClient \<Rightarrow> google_parse_response response_data)"

definition get_completion :: "env \<Rightarrow> client \<Rightarrow> chat_message list \<Rightarrow> exc + string option" where
  "get_completion e c messages_queryset =
     (let formatted_messages = format_messages c messages_queryset
      in if \<not> formatted_truthy formatted_messages then Inl (ValueError EmptyPayload)
         else ebind (call_api e c formatted_messages) (\<lambda>raw_response.
                parse_response c raw_response))"

section \<open>Turn orchestrator (end\_call/views.py)\<close>

text \<open>
  \<open>NewChatMessageSerializer\<close> has the single field
  \<open>content = CharField(required=True, allow_blank=False)\<close>. A \<open>CharField\<close> of the REST
  framework trims white space by default before it tests for a blank value, and refuses a
  null character. The request data is modelled for textual content: \<open>None\<close> is a request
  without the field.
\<close>

datatype field_error = Required | Blank | NullCharacter

definition NewChatMessageSerializer_validate :: "string option \<Rightarrow> field_error + string" where
  "NewChatMessageSerializer_validate data =
     (case data of
        None \<Rightarrow> Inl Required
      | Some s \<Rightarrow>
          if py_strip s = [] then Inl Blank
          else if CHR 0x00 \<in> set (py_strip s) then Inl NullCharacter
          else Inr (py_strip s))"

text \<open>\<open>get_object\<close>: the session with this key among the sessions of the requesting user.\<close>

definition get_object :: "db \<Rightarrow> nat \<Rightarrow> nat \<Rightarrow> chat_session option" where
  "get_object d user pk =
     (case sessions d pk of
        None \<Rightarrow> None
      | Some s \<Rightarrow> if owner s = user then Some s else None)"

definition fresh_id :: "chat_message list \<Rightarrow> nat" where
  "fresh_id ms = Suc (fold max (map msg_id ms) 0)"

text \<open>\<open>ChatMessage.objects.create\<close>: a new row, stamped with the time of its creation.\<close>

definition ChatMessage_create :: "db \<Rightarrow> nat \<Rightarrow> string \<Rightarrow> string \<Rightarrow> nat \<Rightarrow> db \<times> chat_message" where
  "ChatMessage_create d pk r c t =
     (let m = \<lparr>msg_id = fresh_id (messages d), msg_session = pk, role = r, content = c,
               timestamp = t\<rparr>
      in (d\<lparr>messages := messages d @ [m]\<rparr>, m))"

text \<open>
  \<open>session.messages.order_by('timestamp')\<close>. Rows of equal time keep the order in which
  they were inserted.
\<close>

definition session_messages :: "db \<Rightarrow> nat \<Rightarrow> chat_message list" where
  "session_messages d pk = sort_key timestamp (filter (\<lambda>m. msg_session m = pk) (messages d))"

text \<open>
  \<open>session.save(update_fields=['updated_at'])\<close>: the field has \<open>auto_now\<close>, so the time
  written is the one of the save.
\<close>

definition session_touch :: "db \<Rightarrow> nat \<Rightarrow> nat \<Rightarrow> db" where
  "session_touch d pk t =
     (case sessions d pk of
        None \<Rightarrow> d
      | Some s \<Rightarrow> d\<lparr>sessions := (sessions d)(pk \<mapsto> s\<lparr>updated_at := t\<rparr>)\<rparr>)"

datatype response_body =
    NewMessages "chat_message list"
  | NoAIResponse chat_message
  | AIServiceFailure exc
  | UnexpectedError
  | ValidationFailed field_error
  | NotFound

type_synonym response = "nat \<times> response_body"

text \<open>Steps 4 and 5 of \<open>add_message\<close>: the client of the factory, then its completion.\<close>

definition ai_step :: "env \<Rightarrow> db \<Rightarrow> nat \<Rightarrow> chat_session \<Rightarrow> chat_message list \<Rightarrow> exc + string option" where
  "ai_step e d user session history =
     ebind (get_ai_client e d user (ai_model_identifier session)) (\<lambda>c.
       get_completion e c history)"

text \<open>
  The rest of \<open>add_message\<close> from the result of the AI step on: step 6 and the two
  \<open>except\<close> clauses. \<open>if ai_response_content\<close> is false for \<open>None\<close> and for the empty
  string. \<open>ValueError\<close> and the exceptions of \<open>requests\<close> give status 503, every other
  exception status 500.
\<close>

definition finish_turn :: "env \<Rightarrow> db \<Rightarrow> nat \<Rightarrow> chat_message \<Rightarrow> exc + string option
    \<Rightarrow> db \<times> response" where
  "finish_turn e d pk user_message outcome =
     (case outcome of
        Inr None \<Rightarrow> (d, (200, NoAIResponse user_message))
      | Inr (Some ai_response_content) \<Rightarrow>
          if ai_response_content \<noteq> [] then
            (case ChatMessage_create d pk ''assistant'' ai_response_content (t_ai_message e) of
               (d', ai_message) \<Rightarrow>
                 (session_touch d' pk (t_session_save e),
                  (201, NewMessages [user_message, ai_message])))
          else (d, (200, NoAIResponse user_message))
      | Inl (ValueError v) \<Rightarrow> (d, (503, AIServiceFailure (ValueError v)))
      | Inl (RequestException r) \<Rightarrow> (d, (503, AIServiceFailure (RequestException r)))
      | Inl other \<Rightarrow> (d, (500, UnexpectedError)))"

definition add_message :: "env \<Rightarrow> db \<Rightarrow> nat \<Rightarrow> nat \<Rightarrow> string option \<Rightarrow> db \<times> response" where
  "add_message e d user pk data =
     (case get_object d user pk of
        None \<Rightarrow> (d, (404, NotFound))
      | Some session \<Rightarrow>
          (case NewChatMessageSerializer_validate data of
             Inl err \<Rightarrow> (d, (400, ValidationFailed err))
           | Inr user_message_content \<Rightarrow>
               (case ChatMessage_create d pk ''user'' user_message_content (t_user_message e) of
                  (d1, user_message) \<Rightarrow>
                    finish_turn e d1 pk user_message
                      (ai_step e d1 user session (session_messages d1 pk)))))"

section \<open>Example data\<close>

text \<open>
  A store with conversation 3 of user 7 on \<open>openai_gpt-4\<close>, without stored keys
  (\<open>ex_db\<close>) or with one key of that user for \<open>openai\<close> (\<open>ex_db_key\<close>). In the world
  \<open>ex_env\<close> decryption undoes a prefix \<open>enc:\<close> and fails on everything else, no system key
  is configured and the provider does not answer; \<open>ex_env_sys\<close> adds a system key for
  \<open>openai\<close> to the environment, and \<open>ex_env_ok\<close> a provider that answers \<open>Hi there\<close>.
\<close>

definition ex_decrypt :: "string \<Rightarrow> exc + string" where
  "ex_decrypt blob =
     (if take 4 blob = ''enc:'' then Inr (drop 4 blob) else Inl (OtherException ''InvalidToken''))"

definition ex_env :: env where
  "ex_env = \<lparr>fernet_decrypt = ex_decrypt,
             settings_attr = (\<lambda>n. None),
             environ = (\<lambda>n. None),
             http_post = (\<lambda>r. Inl (RequestException ''timeout'')),
             t_user_message = 10, t_ai_message = 11, t_session_save = 12\<rparr>"

definition ex_env_sys :: env where
  "ex_env_sys = ex_env\<lparr>environ := (\<lambda>n. if n = ''OPENAI_API_KEY'' then Some ''sk-system'' else None)\<rparr>"

definition ex_env_ok :: env where
  "ex_env_ok = ex_env_sys\<lparr>http_post := (\<lambda>r. Inr (JObj [(''choices'',
       JArr [JObj [(''message'', JObj [(''content'', JStr ''Hi there'')])]])]))\<rparr>"

definition ex_session :: chat_session where
  "ex_session = \<lparr>owner = 7, title = ''New Chat'', ai_model_identifier = ''openai_gpt-4'',
                 created_at = 1, updated_at = 1\<rparr>"

definition ex_db :: db where
  "ex_db = \<lparr>user_api_keys = (\<lambda>k. None),
            sessions = (\<lambda>k. if k = 3 then Some ex_session else None),
            messages = []\<rparr>"

definition ex_db_key :: "string \<Rightarrow> db" where
  "ex_db_key blob = ex_db\<lparr>user_api_keys := (\<lambda>k. if k = (7, ''openai'') then Some blob else None)\<rparr>"

text \<open>Provider responses that carry one text.\<close>

definition openai_response :: "string \<Rightarrow> json" where
  "openai_response s = JObj [(''choices'', JArr [JObj [(''message'', JObj [(''content'', JStr s)])]])]"

definition anthropic_response :: "string \<Rightarrow> json" where
  "anthropic_response s =
     JObj [(''content'', JArr [JObj [(''type'', JStr ''text''), (''text'', JStr s)]])]"

definition google_response :: "string \<Rightarrow> json" where
  "google_response s =
     JObj [(''candidates'',
            JArr [JObj [(''content'', JObj [(''parts'', JArr [JObj [(''text'', JStr s)]])]),
                        (''finishReason'', JStr ''STOP'')]])]"

section \<open>Properties of the Google formatter\<close>

lemma google_loop_Nil [simp]: "google_loop [] s = s"
  by (simp add: google_loop_def)

lemma google_loop_Cons [simp]: "google_loop (m # ms) s = google_loop ms (google_step s m)"
  by (simp add: google_loop_def)

lemma google_loop_append: "google_loop (xs @ ys) s = google_loop ys (google_loop xs s)"
  by (simp add: google_loop_def)

text \<open>The body and \<open>last_role\<close> after a step depend only on the body and \<open>last_role\<close> before.\<close>

lemma google_step_core:
  assumes "contents s' = contents s" "last_role s' = last_role s"
  shows "contents (google_step s' m) = contents (google_step s m)
       \<and> last_role (google_step s' m) = last_role (google_step s m)"
  using assms by (simp add: google_step_def)

lemma google_loop_core:
  assumes "contents s' = contents s" "last_role s' = last_role s"
  shows "contents (google_loop ms s') = contents (google_loop ms s)
       \<and> last_role (google_loop ms s') = last_role (google_loop ms s)"
  using assms
proof (induction ms arbitrary: s s')
  case Nil
  then show ?case by simp
next
  case (Cons m ms)
  from google_step_core [OF Cons.prems]
  have "contents (google_step s' m) = contents (google_step s m)"
    and "last_role (google_step s' m) = last_role (google_step s m)" by simp_all
  from Cons.IH [OF this] show ?case by simp
qed

text \<open>Turns already emitted in front of a non-empty body are never touched again.\<close>

lemma google_step_frame:
  assumes "contents s' = d @ contents s" "contents s \<noteq> []" "last_role s' = last_role s"
  shows "contents (google_step s' m) = d @ contents (google_step s m)
       \<and> contents (google_step s m) \<noteq> []
       \<and> last_role (google_step s' m) = last_role (google_step s m)"
  using assms by (simp add: google_step_def butlast_append)

lemma google_loop_frame:
  assumes "contents s' = d @ contents s" "contents s \<noteq> []" "last_role s' = last_role s"
  shows "contents (google_loop ms s') = d @ contents (google_loop ms s)"
  using assms
proof (induction ms arbitrary: s s')
  case Nil
  then show ?case by simp
next
  case (Cons m ms)
  from google_step_frame [OF Cons.prems]
  have "contents (google_step s' m) = d @ contents (google_step s m)"
    and "contents (google_step s m) \<noteq> []"
    and "last_role (google_step s' m) = last_role (google_step s m)" by simp_all
  from Cons.IH [OF this] show ?case by simp
qed

text \<open>
  From a state whose last turn is an open "model" turn: assistant messages up to the next user
  message are merged into that turn, everything else up to there is ignored, and the rest of
  the history is formatted as if it stood alone.
\<close>

lemma google_loop_open_model:
  assumes "contents s = c @ [(''model'', t)]" "last_role s = Some ''model''"
  shows "contents (google_loop post s)
       = c @ [(''model'', t @ merged_text (takeWhile not_user post))]
           @ contents (google_loop (dropWhile not_user post) google_init)"
  using assms
proof (induction post arbitrary: s t)
  case Nil
  then show ?case by (simp add: merged_text_def google_init_def)
next
  case (Cons m post)
  show ?case
  proof (cases "role m = ''user''")
    case True
    have "contents (google_loop post (google_step s m))
        = (c @ [(''model'', t)]) @ contents (google_loop post (google_step google_init m))"
      by (rule google_loop_frame) (simp_all add: google_step_def google_init_def True Cons.prems)
    with True show ?thesis by (simp add: not_user_def merged_text_def)
  next
    case False
    note nu = this
    show ?thesis
    proof (cases "role m = ''assistant''")
      case True
      have "contents (google_step s m) = c @ [(''model'', (t @ newline @ content m))]"
        and "last_role (google_step s m) = Some ''model''"
        using True Cons.prems by (simp_all add: google_step_def)
      from Cons.IH [OF this] True show ?thesis
        by (simp add: not_user_def merged_text_def)
    next
      case False
      have "contents (google_step s m) = c @ [(''model'', t)]"
        and "last_role (google_step s m) = Some ''model''"
        using False nu Cons.prems by (simp_all add: google_step_def)
      from Cons.IH [OF this] False nu show ?thesis
        by (simp add: not_user_def merged_text_def)
    qed
  qed
qed

lemma fst_google_format_messages:
  "fst (google_format_messages ms) = contents (google_loop ms google_init)"
  by (simp add: google_format_messages_def Let_def)

lemma merged_text_no_assistant:
  "\<forall>m \<in> set ms. role m \<noteq> ''assistant'' \<Longrightarrow> merged_text ms = []"
  by (induction ms) (simp_all add: merged_text_def)

text \<open>
  C6 (as stated, it fails). The claim gives the merged turn the text of exactly the two
  contents joined by a newline, for every history that contains the pair. A third assistant
  message directly after the pair is merged into the same turn as well, so the turn's text is
  longer than the two joined contents.
\<close>

theorem google_pair_text_counterexample:
  "fst (google_format_messages
         [mk_msg 1 ''user'' ''q'', mk_msg 2 ''assistant'' ''a'',
          mk_msg 3 ''assistant'' ''b'', mk_msg 4 ''assistant'' ''c''])
     = [(''user'', ''q''), (''model'', ''a'' @ newline @ ''b'' @ newline @ ''c'')]
   \<and> (''model'', ''a'' @ newline @ ''b'')
       \<notin> set (fst (google_format_messages
         [mk_msg 1 ''user'' ''q'', mk_msg 2 ''assistant'' ''a'',
          mk_msg 3 ''assistant'' ''b'', mk_msg 4 ''assistant'' ''c'']))"
  by (simp add: fst_google_format_messages google_step_def google_init_def mk_msg_def
      newline_def)

text \<open>
  C6 (amended). For a history \<open>pre @ [u, a1, a2] @ post\<close> with \<open>u\<close> a user message and
  \<open>a1\<close>, \<open>a2\<close> assistant messages, the returned body is the body of \<open>pre\<close>, the user turn of
  \<open>u\<close>, one single "model" turn for the pair, and the body of what follows from the next user
  message on. The text of that turn starts with the two contents joined by a newline, followed
  by every further assistant message up to the next user message, each after a newline. It is
  exactly the two joined contents when no assistant message stands between the pair and the
  next user message.
\<close>

theorem google_merges_consecutive_assistants:
  assumes "role u = ''user''" and "role a1 = ''assistant''" and "role a2 = ''assistant''"
  shows "fst (google_format_messages (pre @ [u, a1, a2] @ post))
       = fst (google_format_messages pre)
         @ [(''user'', content u),
            (''model'', content a1 @ newline @ content a2
                        @ merged_text (takeWhile not_user post))]
         @ fst (google_format_messages (dropWhile not_user post))
     \<and> ((\<forall>m \<in> set (takeWhile not_user post). role m \<noteq> ''assistant'') \<longrightarrow>
         fst (google_format_messages (pre @ [u, a1, a2] @ post))
       = fst (google_format_messages pre)
         @ [(''user'', content u), (''model'', content a1 @ newline @ content a2)]
         @ fst (google_format_messages (dropWhile not_user post)))"
proof -
  define s0 where "s0 = google_loop pre google_init"
  define s3 where "s3 = google_step (google_step (google_step s0 u) a1) a2"
  have c3: "contents s3
      = (contents s0 @ [(''user'', content u)]) @ [(''model'', content a1 @ newline @ content a2)]"
    and l3: "last_role s3 = Some ''model''"
    using assms by (simp_all add: s3_def google_step_def butlast_append)
  have "google_loop (pre @ [u, a1, a2] @ post) google_init = google_loop post s3"
    by (simp add: google_loop_append s0_def s3_def)
  then have "contents (google_loop (pre @ [u, a1, a2] @ post) google_init)
      = (contents s0 @ [(''user'', content u)])
        @ [(''model'', (content a1 @ newline @ content a2) @ merged_text (takeWhile not_user post))]
        @ contents (google_loop (dropWhile not_user post) google_init)"
    using google_loop_open_model [OF c3 l3, of post] by simp
  then have main: "fst (google_format_messages (pre @ [u, a1, a2] @ post))
       = fst (google_format_messages pre)
         @ [(''user'', content u),
            (''model'', content a1 @ newline @ content a2
                        @ merged_text (takeWhile not_user post))]
         @ fst (google_format_messages (dropWhile not_user post))"
    by (simp add: fst_google_format_messages s0_def)
  then show ?thesis
    by (simp add: merged_text_no_assistant)
qed

theorem google_merges_consecutive_assistants_witness:
  "role (mk_msg 1 ''user'' ''q'') = ''user''
   \<and> role (mk_msg 2 ''assistant'' ''a'') = ''assistant''
   \<and> role (mk_msg 3 ''assistant'' ''b'') = ''assistant''
   \<and> list_all (\<lambda>m. role m \<noteq> ''assistant'') (takeWhile not_user [mk_msg 4 ''user'' ''r''])
   \<and> fst (google_format_messages
        ([] @ [mk_msg 1 ''user'' ''q'', mk_msg 2 ''assistant'' ''a'', mk_msg 3 ''assistant'' ''b'']
            @ [mk_msg 4 ''user'' ''r'']))
     = [(''user'', ''q''), (''model'', ''a'' @ newline @ ''b''), (''user'', ''r'')]"
proof -
  have h1: "role (mk_msg 1 ''user'' ''q'') = ''user''"
    and h2: "role (mk_msg 2 ''assistant'' ''a'') = ''assistant''"
    and h3: "role (mk_msg 3 ''assistant'' ''b'') = ''assistant''"
    by (simp_all add: mk_msg_def)
  have h4: "\<forall>m \<in> set (takeWhile not_user [mk_msg 4 ''user'' ''r'']). role m \<noteq> ''assistant''"
    by (simp add: not_user_def mk_msg_def)
  from google_merges_consecutive_assistants [OF h1 h2 h3, of "[]" "[mk_msg 4 ''user'' ''r'']"] h4
  have "fst (google_format_messages
        ([] @ [mk_msg 1 ''user'' ''q'', mk_msg 2 ''assistant'' ''a'', mk_msg 3 ''assistant'' ''b'']
            @ [mk_msg 4 ''user'' ''r'']))
     = fst (google_format_messages [])
         @ [(''user'', content (mk_msg 1 ''user'' ''q'')),
            (''model'', content (mk_msg 2 ''assistant'' ''a'') @ newline
                        @ content (mk_msg 3 ''assistant'' ''b''))]
         @ fst (google_format_messages (dropWhile not_user [mk_msg 4 ''user'' ''r'']))"
    by blast
  also have "\<dots> = [(''user'', ''q''), (''model'', ''a'' @ newline @ ''b''), (''user'', ''r'')]"
    by (simp add: fst_google_format_messages google_step_def google_init_def mk_msg_def
        not_user_def)
  finally show ?thesis using h1 h2 h3 h4 by (simp add: list_all_iff)
qed

text \<open>
  C10. An assistant message reaches the last branch of the loop when \<open>last_role\<close> is not
  "user" and the body is empty or does not end in a "model" turn. The message is then
  skipped: the returned body is the body of the history without that message, whatever
  follows it. A history that begins with an assistant message is the case \<open>pre = []\<close>.
\<close>

theorem google_skips_orphan_assistant:
  assumes "role a = ''assistant''"
    and "last_role (google_loop pre google_init) \<noteq> Some ''user''"
    and "contents (google_loop pre google_init) = []
         \<or> fst (last (contents (google_loop pre google_init))) \<noteq> ''model''"
  shows "fst (google_format_messages (pre @ a # post)) = fst (google_format_messages (pre @ post))"
proof -
  define s where "s = google_loop pre google_init"
  have "contents (google_step s a) = contents s" and "last_role (google_step s a) = last_role s"
    using assms by (auto simp add: s_def google_step_def)
  from google_loop_core [OF this, of post]
  show ?thesis
    by (simp add: fst_google_format_messages google_loop_append s_def)
qed

theorem google_skips_orphan_assistant_witness:
  "role (mk_msg 2 ''assistant'' ''hello'') = ''assistant''
   \<and> last_role (google_loop [mk_msg 1 ''system'' ''be brief''] google_init) \<noteq> Some ''user''
   \<and> (contents (google_loop [mk_msg 1 ''system'' ''be brief''] google_init) = []
      \<or> fst (last (contents (google_loop [mk_msg 1 ''system'' ''be brief''] google_init)))
          \<noteq> ''model'')
   \<and> fst (google_format_messages
        ([mk_msg 1 ''system'' ''be brief''] @ mk_msg 2 ''assistant'' ''hello''
           # [mk_msg 3 ''user'' ''q'']))
     = [(''user'', ''q'')]"
proof -
  have h1: "role (mk_msg 2 ''assistant'' ''hello'') = ''assistant''"
    by (simp add: mk_msg_def)
  have h2: "last_role (google_loop [mk_msg 1 ''system'' ''be brief''] google_init) \<noteq> Some ''user''"
    by (simp add: google_step_def google_init_def mk_msg_def)
  have h3: "contents (google_loop [mk_msg 1 ''system'' ''be brief''] google_init) = []
      \<or> fst (last (contents (google_loop [mk_msg 1 ''system'' ''be brief''] google_init)))
          \<noteq> ''model''"
    by (simp add: google_step_def google_init_def mk_msg_def)
  have "fst (google_format_messages
        ([mk_msg 1 ''system'' ''be brief''] @ mk_msg 2 ''assistant'' ''hello''
           # [mk_msg 3 ''user'' ''q'']))
     = fst (google_format_messages ([mk_msg 1 ''system'' ''be brief''] @ [mk_msg 3 ''user'' ''q'']))"
    by (rule google_skips_orphan_assistant [OF h1 h2 h3])
  also have "\<dots> = [(''user'', ''q'')]"
    by (simp add: fst_google_format_messages google_step_def google_init_def mk_msg_def)
  finally show ?thesis using h1 h2 h3 by blast
qed

section \<open>Properties of the credential resolver\<close>

text \<open>
  C3. If the user has a stored key for the service and \<open>UserAPIKey.get_api_key\<close> returns a
  non-empty secret for it, the resolver returns that secret, whatever the settings and the
  environment hold for the service.
\<close>

theorem resolver_prefers_user_key:
  assumes "user_api_keys d (user, svc) = Some encrypted"
    and "get_api_key e encrypted = Some k"
    and "k \<noteq> []"
  shows "get_api_key_for_service e d user svc = Some k"
  using assms by (simp add: get_api_key_for_service_def str_truthy_def)

theorem resolver_prefers_user_key_witness:
  "user_api_keys (ex_db_key ''enc:sk-user'') (7, ''openai'') = Some ''enc:sk-user''
   \<and> get_api_key ex_env_sys ''enc:sk-user'' = Some ''sk-user''
   \<and> system_key_lookup ex_env_sys ''OPENAI_API_KEY'' = Some ''sk-system''
   \<and> get_api_key_for_service ex_env_sys (ex_db_key ''enc:sk-user'') 7 ''openai'' = Some ''sk-user''"
proof -
  have h1: "user_api_keys (ex_db_key ''enc:sk-user'') (7, ''openai'') = Some ''enc:sk-user''"
    by (simp add: ex_db_key_def ex_db_def)
  have h2: "get_api_key ex_env_sys ''enc:sk-user'' = Some ''sk-user''"
    by (simp add: get_api_key_def ex_env_sys_def ex_env_def ex_decrypt_def)
  have h3: "''sk-user'' \<noteq> []" by simp
  have s: "system_key_lookup ex_env_sys ''OPENAI_API_KEY'' = Some ''sk-system''"
    by (simp add: system_key_lookup_def ex_env_sys_def ex_env_def)
  from resolver_prefers_user_key [OF h1 h2 h3] h1 h2 s show ?thesis by simp
qed

text \<open>
  C4. If the user has a stored key for the service and its decryption raises, the method
  \<open>get_api_key\<close> returns \<open>None\<close> and the resolver returns the system key when one is
  configured and not empty, and \<open>None\<close> otherwise. The resolver's result is a key or
  \<open>None\<close>: no path of it raises.
\<close>

theorem resolver_swallows_decryption_failure:
  assumes "user_api_keys d (user, svc) = Some encrypted"
    and "fernet_decrypt e encrypted = Inl err"
  shows "get_api_key e encrypted = None
       \<and> get_api_key_for_service e d user svc
         = (case system_key_lookup e (py_upper svc @ ''_API_KEY'') of
              None \<Rightarrow> None
            | Some k \<Rightarrow> if k = [] then None else Some k)"
  using assms
  by (simp add: get_api_key_for_service_def get_api_key_def str_truthy_def split: option.splits)

theorem resolver_swallows_decryption_failure_witness:
  "user_api_keys (ex_db_key ''garbage'') (7, ''openai'') = Some ''garbage''
   \<and> fernet_decrypt ex_env_sys ''garbage'' = Inl (OtherException ''InvalidToken'')
   \<and> get_api_key_for_service ex_env_sys (ex_db_key ''garbage'') 7 ''openai'' = Some ''sk-system''
   \<and> fernet_decrypt ex_env ''garbage'' = Inl (OtherException ''InvalidToken'')
   \<and> get_api_key_for_service ex_env (ex_db_key ''garbage'') 7 ''openai'' = None"
proof -
  have h1: "user_api_keys (ex_db_key ''garbage'') (7, ''openai'') = Some ''garbage''"
    by (simp add: ex_db_key_def ex_db_def)
  have h2: "fernet_decrypt ex_env_sys ''garbage'' = Inl (OtherException ''InvalidToken'')"
    by (simp add: ex_env_sys_def ex_env_def ex_decrypt_def)
  have h3: "fernet_decrypt ex_env ''garbage'' = Inl (OtherException ''InvalidToken'')"
    by (simp add: ex_env_def ex_decrypt_def)
  have u: "py_upper ''openai'' @ ''_API_KEY'' = ''OPENAI_API_KEY''"
    by (simp add: py_upper_def upper_char_def)
  have s1: "system_key_lookup ex_env_sys ''OPENAI_API_KEY'' = Some ''sk-system''"
    by (simp add: system_key_lookup_def ex_env_sys_def ex_env_def)
  have s2: "system_key_lookup ex_env ''OPENAI_API_KEY'' = None"
    by (simp add: system_key_lookup_def ex_env_def)
  from resolver_swallows_decryption_failure [OF h1 h2]
       resolver_swallows_decryption_failure [OF h1 h3] h1 h2 h3
  show ?thesis by (simp add: u s1 s2)
qed

section \<open>Properties of the Anthropic formatter\<close>

lemma anthropic_step_eq:
  "anthropic_step (f, sp) m =
     (if role m = ''system'' then (f, case sp of None \<Rightarrow> Some (content m) | Some x \<Rightarrow> Some x)
      else if role m = ''user'' \<or> role m = ''assistant'' then (f @ [(role m, content m)], sp)
      else (f, sp))"
  by (simp add: anthropic_step_def split: option.splits)

lemma anthropic_fold:
  "fold (\<lambda>m st. anthropic_step st m) ms (f, sp)
     = (f @ map (\<lambda>m. (role m, content m)) (filter (\<lambda>m. role m = ''user'' \<or> role m = ''assistant'') ms),
        case sp of None \<Rightarrow> first_system ms | Some x \<Rightarrow> Some x)"
proof (induction ms arbitrary: f sp)
  case Nil
  then show ?case by (simp add: first_system_def split: option.splits)
next
  case (Cons m ms)
  have "fold (\<lambda>m st. anthropic_step st m) (m # ms) (f, sp)
      = fold (\<lambda>m st. anthropic_step st m) ms (anthropic_step (f, sp) m)"
    by simp
  also have "\<dots> = (f @ map (\<lambda>m. (role m, content m))
                      (filter (\<lambda>m. role m = ''user'' \<or> role m = ''assistant'') (m # ms)),
                  case sp of None \<Rightarrow> first_system (m # ms) | Some x \<Rightarrow> Some x)"
    by (cases sp) (auto simp add: anthropic_step_eq Cons.IH first_system_def)
  finally show ?case .
qed

text \<open>
  What the formatter returns for any history: the user and assistant messages in order, the
  content of the first system message, and the warning exactly when that list is empty or
  does not start with a user message.
\<close>

lemma anthropic_format_messages_eq:
  "anthropic_format_messages ms =
     (let chat = filter (\<lambda>m. role m = ''user'' \<or> role m = ''assistant'') ms
      in (\<lparr>a_messages = map (\<lambda>m. (role m, content m)) chat, a_system = first_system ms\<rparr>,
          if chat = [] \<or> role (hd chat) \<noteq> ''user'' then [FirstNotUser] else []))"
proof -
  have "xs \<noteq> [] \<Longrightarrow> fst (hd (map (\<lambda>m. (role m, content m)) xs)) = role (hd xs)"
    for xs :: "chat_message list"
    by (cases xs) simp_all
  then show ?thesis
    by (auto simp add: anthropic_format_messages_def anthropic_fold Let_def)
qed

lemma valid_roles_chat:
  assumes "\<forall>m \<in> set ms. role m \<in> set ROLE_CHOICES"
  shows "filter (\<lambda>m. role m = ''user'' \<or> role m = ''assistant'') ms
       = filter (\<lambda>m. role m \<noteq> ''system'') ms"
  using assms by (intro filter_cong) (auto simp add: ROLE_CHOICES_def)

text \<open>
  C7. For a history with roles from \<open>ROLE_CHOICES\<close> whose first message other than a system
  message is not a user message, or which has none, the formatter returns the request body
  (the messages without the system messages, and the first system message as \<open>system\<close>)
  together with the warning. The function is total: no input makes it raise.
\<close>

theorem anthropic_flags_non_user_start:
  assumes "\<forall>m \<in> set ms. role m \<in> set ROLE_CHOICES"
    and "filter (\<lambda>m. role m \<noteq> ''system'') ms = []
         \<or> role (hd (filter (\<lambda>m. role m \<noteq> ''system'') ms)) \<noteq> ''user''"
  shows "anthropic_format_messages ms =
         (\<lparr>a_messages = map (\<lambda>m. (role m, content m)) (filter (\<lambda>m. role m \<noteq> ''system'') ms),
           a_system = first_system ms\<rparr>,
          [FirstNotUser])"
  using assms(2) by (simp add: anthropic_format_messages_eq valid_roles_chat [OF assms(1)] Let_def)

theorem anthropic_flags_non_user_start_witness:
  "list_all (\<lambda>m. role m \<in> set ROLE_CHOICES)
     [mk_msg 1 ''system'' ''be brief'', mk_msg 2 ''assistant'' ''hello'', mk_msg 3 ''user'' ''q'']
   \<and> role (hd (filter (\<lambda>m. role m \<noteq> ''system'')
        [mk_msg 1 ''system'' ''be brief'', mk_msg 2 ''assistant'' ''hello'', mk_msg 3 ''user'' ''q'']))
       = ''assistant''
   \<and> anthropic_format_messages
        [mk_msg 1 ''system'' ''be brief'', mk_msg 2 ''assistant'' ''hello'', mk_msg 3 ''user'' ''q'']
     = (\<lparr>a_messages = [(''assistant'', ''hello''), (''user'', ''q'')], a_system = Some ''be brief''\<rparr>,
        [FirstNotUser])"
proof -
  let ?ms = "[mk_msg 1 ''system'' ''be brief'', mk_msg 2 ''assistant'' ''hello'', mk_msg 3 ''user'' ''q'']"
  have h1: "\<forall>m \<in> set ?ms. role m \<in> set ROLE_CHOICES"
    by (simp add: mk_msg_def ROLE_CHOICES_def)
  have h2: "filter (\<lambda>m. role m \<noteq> ''system'') ?ms = []
         \<or> role (hd (filter (\<lambda>m. role m \<noteq> ''system'') ?ms)) \<noteq> ''user''"
    by (simp add: mk_msg_def)
  have "anthropic_format_messages ?ms =
         (\<lparr>a_messages = map (\<lambda>m. (role m, content m)) (filter (\<lambda>m. role m \<noteq> ''system'') ?ms),
           a_system = first_system ?ms\<rparr>,
          [FirstNotUser])"
    by (rule anthropic_flags_non_user_start [OF h1 h2])
  then have "anthropic_format_messages ?ms
     = (\<lparr>a_messages = [(''assistant'', ''hello''), (''user'', ''q'')], a_system = Some ''be brief''\<rparr>,
        [FirstNotUser])"
    by (simp add: mk_msg_def first_system_def)
  moreover have "list_all (\<lambda>m. role m \<in> set ROLE_CHOICES) ?ms"
    using h1 by (simp add: list_all_iff)
  moreover have "role (hd (filter (\<lambda>m. role m \<noteq> ''system'') ?ms)) = ''assistant''"
    by (simp add: mk_msg_def)
  ultimately show ?thesis by blast
qed

section \<open>Properties of the response parsers\<close>

text \<open>
  C8. The OpenAI parser turns the response
  \<open>{"choices":[{"message":{"content":"Hi there"}}]}\<close> into the text \<open>Hi there\<close>. The Google
  parser raises the safety error, with the candidate's safety ratings, for every response
  whose list of candidates starts with a candidate of finish reason \<open>SAFETY\<close>; it returns
  no text then.
\<close>

theorem parse_canned_responses:
  assumes "map_of d ''candidates'' = Some (JArr (JObj c # rest))"
    and "map_of c ''finishReason'' = Some (JStr ''SAFETY'')"
  shows "openai_parse_response
           (JObj [(''choices'', JArr [JObj [(''message'', JObj [(''content'', JStr ''Hi there'')])]])])
         = Inr (Some ''Hi there'')
       \<and> google_parse_response (JObj d)
         = Inl (ValueError (SafetyBlocked
             (case map_of c ''safetyRatings'' of None \<Rightarrow> JArr [] | Some r \<Rightarrow> r)))"
proof -
  have "openai_parse_response
           (JObj [(''choices'', JArr [JObj [(''message'', JObj [(''content'', JStr ''Hi there'')])]])])
         = Inr (Some ''Hi there'')"
    by (simp add: openai_parse_response_def ebind_def py_strip_def py_isspace_def)
  moreover have "google_parse_response (JObj d)
         = Inl (ValueError (SafetyBlocked
             (case map_of c ''safetyRatings'' of None \<Rightarrow> JArr [] | Some r \<Rightarrow> r)))"
    using assms by (simp add: google_parse_response_def ebind_def)
  ultimately show ?thesis by blast
qed

theorem parse_canned_responses_witness:
  "map_of [(''candidates'', JArr [JObj [(''finishReason'', JStr ''SAFETY'')]])] ''candidates''
     = Some (JArr (JObj [(''finishReason'', JStr ''SAFETY'')] # []))
   \<and> map_of [(''finishReason'', JStr ''SAFETY'')] ''finishReason'' = Some (JStr ''SAFETY'')
   \<and> google_parse_response (JObj [(''candidates'', JArr [JObj [(''finishReason'', JStr ''SAFETY'')]])])
     = Inl (ValueError (SafetyBlocked (JArr [])))"
proof -
  have h1: "map_of [(''candidates'', JArr [JObj [(''finishReason'', JStr ''SAFETY'')]])] ''candidates''
     = Some (JArr (JObj [(''finishReason'', JStr ''SAFETY'')] # []))" by simp
  have h2: "map_of [(''finishReason'', JStr ''SAFETY'')] ''finishReason'' = Some (JStr ''SAFETY'')"
    by simp
  from parse_canned_responses [OF h1 h2] h1 h2 show ?thesis by simp
qed

text \<open>
  A text that a parser returns is a result of \<open>strip\<close>.
\<close>

lemma catch_parse_Inr: "catch_parse p x = Inr v \<Longrightarrow> x = Inr v"
  by (cases "(p, x)" rule: catch_parse.cases) simp_all

lemma ebind_Inr: "ebind x f = Inr v \<Longrightarrow> \<exists>a. x = Inr a \<and> f a = Inr v"
  by (cases x) (simp_all add: ebind_def)

lemma py_strip_method_Inr: "py_strip_method x = Inr t \<Longrightarrow> t \<in> range py_strip"
  by (cases x) auto

lemma openai_parse_stripped:
  assumes "openai_parse_response r = Inr (Some t)"
  shows "t \<in> range py_strip"
proof -
  from assms have "ebind (py_contains ''error'' r) (\<lambda>has_error.
        if has_error then
          ebind (py_getitem r ''error'') (\<lambda>error_details.
          ebind (py_get error_details ''message'' (JStr ''Unknown error'')) (\<lambda>message.
            Inl (ValueError (ApiError ''OpenAI'' message))))
        else
          ebind (py_getitem r ''choices'') (\<lambda>choices.
          ebind (py_getitem0 choices) (\<lambda>choice.
          ebind (py_getitem choice ''message'') (\<lambda>message.
          ebind (py_getitem message ''content'') (\<lambda>content.
            if py_truthy content
            then ebind (py_strip_method content) (\<lambda>t. Inr (Some t))
            else Inr None))))) = Inr (Some t)"
    unfolding openai_parse_response_def by (rule catch_parse_Inr)
  then show ?thesis
    by (auto dest!: ebind_Inr py_strip_method_Inr split: if_splits)
qed

lemma anthropic_parse_stripped:
  assumes "anthropic_parse_response r = Inr (Some t)"
  shows "t \<in> range py_strip"
  using catch_parse_Inr [OF assms [unfolded anthropic_parse_response_def]]
  by (auto dest!: ebind_Inr py_strip_method_Inr split: if_splits)

lemma google_parse_stripped:
  assumes "google_parse_response r = Inr (Some t)"
  shows "t \<in> range py_strip"
  using catch_parse_Inr [OF assms [unfolded google_parse_response_def]]
  by (auto dest!: ebind_Inr split: if_splits)

text \<open>Stripping is idempotent and leaves no white space at either end.\<close>

lemma py_strip_trimmed:
  "py_strip (py_strip s) = py_strip s
   \<and> (py_strip s = [] \<or> (\<not> py_isspace (hd (py_strip s)) \<and> \<not> py_isspace (last (py_strip s))))"
proof -
  define ys where "ys = dropWhile py_isspace s"
  define zs where "zs = dropWhile py_isspace (rev ys)"
  have t: "py_strip s = rev zs" by (simp add: py_strip_def ys_def zs_def)
  show ?thesis
  proof (cases "zs = []")
    case True
    with t have "py_strip s = []" by simp
    moreover have "py_strip [] = []" by (simp add: py_strip_def)
    ultimately show ?thesis by simp
  next
    case False
    then have hz: "\<not> py_isspace (hd zs)"
      unfolding zs_def by (rule hd_dropWhile)
    from False have "rev ys \<noteq> []" by (auto simp add: zs_def)
    then have "ys \<noteq> []" by simp
    then have hy: "\<not> py_isspace (hd ys)" unfolding ys_def by (rule hd_dropWhile)
    have "\<exists>us. rev ys = us @ zs"
      unfolding zs_def by (metis takeWhile_dropWhile_id)
    then obtain us where us: "rev ys = us @ zs" ..
    with False have "last zs = last (rev ys)" by simp
    also have "\<dots> = hd ys" using \<open>ys \<noteq> []\<close> by (simp add: last_rev)
    finally have lz: "\<not> py_isspace (last zs)" using hy by simp
    have d1: "dropWhile py_isspace (rev zs) = rev zs"
      using False lz by (simp add: dropWhile_eq_self_iff hd_rev)
    have d2: "dropWhile py_isspace zs = zs"
      using hz by (simp add: dropWhile_eq_self_iff)
    have "py_strip (rev zs) = rev zs"
      by (simp add: py_strip_def d1 d2)
    with False hz lz show ?thesis by (simp add: t hd_rev last_rev)
  qed
qed

lemma openai_parse_text:
  "openai_parse_response (openai_response s) = Inr (if s = [] then None else Some (py_strip s))"
  by (simp add: openai_parse_response_def openai_response_def ebind_def)

lemma anthropic_parse_text:
  "anthropic_parse_response (anthropic_response s) = Inr (Some (py_strip s))"
  by (simp add: anthropic_parse_response_def anthropic_response_def ebind_def)

lemma google_parse_text:
  "google_parse_response (google_response s) = Inr (if s = [] then None else Some (py_strip s))"
  by (simp add: google_parse_response_def google_response_def ebind_def)

lemma parse_response_stripped:
  assumes "parse_response c r = Inr (Some t)"
  shows "t \<in> range py_strip"
  using assms openai_parse_stripped anthropic_parse_stripped google_parse_stripped
  by (cases "cls c") (simp_all add: parse_response_def)

section \<open>Properties of the turn orchestrator\<close>

lemma finish_turn_Inl:
  "finish_turn e d pk um (Inl err) =
     (d, case err of ValueError v \<Rightarrow> (503, AIServiceFailure (ValueError v))
         | RequestException r \<Rightarrow> (503, AIServiceFailure (RequestException r))
         | _ \<Rightarrow> (500, UnexpectedError))"
  by (cases err) (simp_all add: finish_turn_def)

lemma validate_nonempty: "NewChatMessageSerializer_validate data = Inr c \<Longrightarrow> c \<noteq> []"
  by (auto simp add: NewChatMessageSerializer_validate_def split: option.splits if_splits)

lemma get_object_Some: "get_object d user pk = Some session \<Longrightarrow> sessions d pk = Some session"
  by (auto simp add: get_object_def split: option.splits if_splits)

lemma ChatMessage_create_eq:
  "ChatMessage_create d pk r c t = (d1, m) \<Longrightarrow>
     messages d1 = messages d @ [m] \<and> sessions d1 = sessions d
     \<and> user_api_keys d1 = user_api_keys d
     \<and> role m = r \<and> content m = c \<and> msg_session m = pk \<and> timestamp m = t"
  by (auto simp add: ChatMessage_create_def Let_def)

lemma finish_turn_cases:
  assumes "sessions d1 pk = Some session"
  shows "(\<exists>am. outcome = Inr (Some (content am)) \<and> content am \<noteq> [] \<and> role am = ''assistant''
            \<and> fst (snd (finish_turn e d1 pk um outcome)) = 201
            \<and> messages (fst (finish_turn e d1 pk um outcome)) = messages d1 @ [am]
            \<and> sessions (fst (finish_turn e d1 pk um outcome))
                = (sessions d1)(pk \<mapsto> session\<lparr>updated_at := t_session_save e\<rparr>))
       \<or> (fst (snd (finish_turn e d1 pk um outcome)) \<in> {200, 503, 500}
            \<and> fst (finish_turn e d1 pk um outcome) = d1)"
proof (cases outcome)
  case (Inl err)
  then show ?thesis by (cases err) (simp_all add: finish_turn_def)
next
  case (Inr res)
  show ?thesis
  proof (cases res)
    case None
    with Inr show ?thesis by (simp add: finish_turn_def)
  next
    case (Some t)
    show ?thesis
    proof (cases "t = []")
      case True
      with Inr Some show ?thesis by (simp add: finish_turn_def)
    next
      case False
      obtain d2 am where c: "ChatMessage_create d1 pk ''assistant'' t (t_ai_message e) = (d2, am)"
        by (cases "ChatMessage_create d1 pk ''assistant'' t (t_ai_message e)")
      note f = ChatMessage_create_eq [OF c]
      have ft: "finish_turn e d1 pk um outcome
          = (session_touch d2 pk (t_session_save e), (201, NewMessages [um, am]))"
        using Inr Some False c by (simp add: finish_turn_def)
      have st: "session_touch d2 pk (t_session_save e)
          = d2\<lparr>sessions := (sessions d2)(pk \<mapsto> session\<lparr>updated_at := t_session_save e\<rparr>)\<rparr>"
        using f assms by (simp add: session_touch_def)
      have "outcome = Inr (Some (content am))" "content am \<noteq> []" "role am = ''assistant''"
        using Inr Some False f by simp_all
      moreover have "fst (snd (finish_turn e d1 pk um outcome)) = 201
            \<and> messages (fst (finish_turn e d1 pk um outcome)) = messages d1 @ [am]
            \<and> sessions (fst (finish_turn e d1 pk um outcome))
                = (sessions d1)(pk \<mapsto> session\<lparr>updated_at := t_session_save e\<rparr>)"
        using f by (simp add: ft st)
      ultimately show ?thesis by blast
    qed
  qed
qed

text \<open>The example turns, evaluated.\<close>

lemma py_strip_hello: "py_strip ''hello'' = ''hello''"
  by (simp add: py_strip_def py_isspace_def)

lemma ex_get_object: "get_object ex_db 7 3 = Some ex_session"
  by (simp add: get_object_def ex_db_def ex_session_def)

lemma ex_validate: "NewChatMessageSerializer_validate (Some ''hello'') = Inr ''hello''"
  by (simp add: NewChatMessageSerializer_validate_def py_strip_hello)

lemma ex_create:
  "ChatMessage_create ex_db pk r c t
     = (ex_db\<lparr>messages := [\<lparr>msg_id = Suc 0, msg_session = pk, role = r, content = c,
                               timestamp = t\<rparr>]\<rparr>,
        \<lparr>msg_id = Suc 0, msg_session = pk, role = r, content = c, timestamp = t\<rparr>)"
  by (simp add: ChatMessage_create_def ex_db_def fresh_id_def Let_def)

lemma ex_history: "msg_session m = pk \<Longrightarrow> session_messages (ex_db\<lparr>messages := [m]\<rparr>) pk = [m]"
  by (simp add: session_messages_def)

lemma ex_upper: "py_upper ''openai'' = ''OPENAI''"
  by (simp add: py_upper_def upper_char_def)

lemma ex_client:
  "get_ai_client ex_env_sys (ex_db\<lparr>messages := ms\<rparr>) 7 ''openai_gpt-4''
     = Inr \<lparr>cls = OpenAIClient, c_user = 7, model_identifier = ''openai_gpt-4'',
            service_name = ''openai'', api_key = ''sk-system''\<rparr>"
  by (simp add: get_ai_client_def BaseAIClient_init_def extract_service_name_def
      get_api_key_for_service_def ex_db_def ex_upper system_key_lookup_def ex_env_sys_def
      ex_env_def str_truthy_def Let_def)

lemma ex_client_ok:
  "get_ai_client ex_env_ok (ex_db\<lparr>messages := ms\<rparr>) 7 ''openai_gpt-4''
     = Inr \<lparr>cls = OpenAIClient, c_user = 7, model_identifier = ''openai_gpt-4'',
            service_name = ''openai'', api_key = ''sk-system''\<rparr>"
  by (simp add: get_ai_client_def BaseAIClient_init_def extract_service_name_def
      get_api_key_for_service_def ex_db_def ex_upper system_key_lookup_def ex_env_ok_def
      ex_env_sys_def ex_env_def str_truthy_def Let_def)

lemma ex_ai_step_sys:
  assumes "role m = ''user''"
  shows "ai_step ex_env_sys (ex_db\<lparr>messages := ms\<rparr>) 7 ex_session [m]
       = Inl (RequestException ''timeout'')"
proof -
  have "ai_model_identifier ex_session = ''openai_gpt-4''" by (simp add: ex_session_def)
  with assms show ?thesis
    by (simp add: ai_step_def ex_client ebind_def get_completion_def format_messages_def
      openai_format_messages_def call_api_def) (simp add: ex_env_sys_def ex_env_def)
qed

lemma py_strip_Hi_there: "py_strip ''Hi there'' = ''Hi there''"
  by (simp add: py_strip_def py_isspace_def)

lemma ex_ai_step_ok:
  assumes "role m = ''user''"
  shows "ai_step ex_env_ok (ex_db\<lparr>messages := ms\<rparr>) 7 ex_session [m] = Inr (Some ''Hi there'')"
proof -
  have "ai_model_identifier ex_session = ''openai_gpt-4''" by (simp add: ex_session_def)
  with assms show ?thesis
    by (simp add: ai_step_def ex_client_ok ebind_def get_completion_def format_messages_def
      openai_format_messages_def call_api_def parse_response_def)
       (simp add: ex_env_ok_def ex_env_sys_def ex_env_def parse_response_def
         openai_parse_response_def ebind_def py_strip_Hi_there)
qed

lemma ex_times:
  "t_user_message ex_env_sys = 10" "t_user_message ex_env_ok = 10" "t_user_message ex_env = 10"
  "t_session_save ex_env_ok = 12" "t_ai_message ex_env_ok = 11"
  by (simp_all add: ex_env_ok_def ex_env_sys_def ex_env_def)

lemma ex_turn_timeout:
  "add_message ex_env_sys ex_db 7 3 (Some ''hello'')
     = (ex_db\<lparr>messages := [\<lparr>msg_id = 1, msg_session = 3, role = ''user'', content = ''hello'',
                               timestamp = 10\<rparr>]\<rparr>,
        (503, AIServiceFailure (RequestException ''timeout'')))"
  by (simp add: add_message_def ex_get_object ex_validate ex_times ex_create ex_history
      ex_ai_step_sys finish_turn_def)

lemma ex_turn_ok_status:
  "fst (snd (add_message ex_env_ok ex_db 7 3 (Some ''hello''))) = 201"
  by (simp add: add_message_def ex_get_object ex_validate ex_times ex_create ex_history
      ex_ai_step_ok finish_turn_def split_beta)

text \<open>
  C9 (as stated, it fails). A text of white space only is not empty, so the parsers of
  OpenAI and Google strip it and return the empty string, not \<open>None\<close>; the parser of
  Anthropic returns the stripped text without any test and gives the empty string for an
  empty text too.
\<close>

theorem parse_empty_text_counterexample:
  "openai_parse_response (openai_response '' '') = Inr (Some '''')
   \<and> anthropic_parse_response (anthropic_response '''') = Inr (Some '''')
   \<and> google_parse_response (google_response '' '') = Inr (Some '''')"
  by (simp add: openai_parse_response_def anthropic_parse_response_def google_parse_response_def
      openai_response_def anthropic_response_def google_response_def ebind_def newline_def
      py_strip_def py_isspace_def)

text \<open>
  C9 (amended). Every text that a parser returns is stripped: stripping it again changes
  nothing, and it neither starts nor ends with white space. For a response that carries the
  text \<open>s\<close>, the parsers of OpenAI and Google return \<open>None\<close> when \<open>s\<close> is empty and the
  stripped text otherwise, the parser of Anthropic returns the stripped text; so a text that
  is empty after stripping gives \<open>None\<close> or the empty string. The orchestrator treats the
  two alike: it stores no assistant message and answers that the AI did not respond.
\<close>

theorem parse_result_trimmed:
  assumes "parse_response c r = Inr (Some t)"
  shows "py_strip t = t \<and> (t = [] \<or> (\<not> py_isspace (hd t) \<and> \<not> py_isspace (last t)))
       \<and> openai_parse_response (openai_response s)
           = Inr (if s = [] then None else Some (py_strip s))
       \<and> anthropic_parse_response (anthropic_response s) = Inr (Some (py_strip s))
       \<and> google_parse_response (google_response s)
           = Inr (if s = [] then None else Some (py_strip s))
       \<and> finish_turn e d pk um (Inr (Some [])) = (d, (200, NoAIResponse um))
       \<and> finish_turn e d pk um (Inr None) = (d, (200, NoAIResponse um))"
proof -
  from parse_response_stripped [OF assms] obtain u where "t = py_strip u" by blast
  with py_strip_trimmed [of u]
  have "py_strip t = t \<and> (t = [] \<or> (\<not> py_isspace (hd t) \<and> \<not> py_isspace (last t)))"
    by simp
  then show ?thesis
    by (simp add: openai_parse_text anthropic_parse_text google_parse_text finish_turn_def)
qed

theorem parse_result_trimmed_witness:
  "parse_response
     \<lparr>cls = GoogleClient, c_user = 7, model_identifier = ''google_gemini-pro'',
      service_name = ''google'', api_key = ''k''\<rparr>
     (google_response '' Hi there '') = Inr (Some ''Hi there'')
   \<and> py_strip ''Hi there'' = ''Hi there''
   \<and> openai_parse_response (openai_response '' '') = Inr (Some '''')
   \<and> finish_turn ex_env_ok ex_db 3 (mk_msg 1 ''user'' ''hello'') (Inr (Some ''''))
       = (ex_db, (200, NoAIResponse (mk_msg 1 ''user'' ''hello'')))"
proof -
  let ?c = "\<lparr>cls = GoogleClient, c_user = 7, model_identifier = ''google_gemini-pro'',
      service_name = ''google'', api_key = ''k''\<rparr>"
  have s: "py_strip '' Hi there '' = ''Hi there''" "py_strip '' '' = ''''"
    by (simp_all add: py_strip_def py_isspace_def)
  have h: "parse_response ?c (google_response '' Hi there '') = Inr (Some ''Hi there'')"
    by (simp add: parse_response_def google_parse_text s)
  from parse_result_trimmed [OF h, of "'' ''" ex_env_ok ex_db 3 "mk_msg 1 ''user'' ''hello''"] h
  show ?thesis by (simp add: s)
qed

text \<open>
  C1. In a turn on a conversation of the requesting user whose content passes validation
  (and so is not empty), if the AI step raises any exception, the store afterwards holds the
  messages it held before followed by the user message of this turn and nothing else: no
  assistant message is added. The answer has status 503 or 500.
\<close>

theorem failed_turn_keeps_user_message:
  assumes "get_object d user pk = Some session"
    and "NewChatMessageSerializer_validate data = Inr c"
    and "ChatMessage_create d pk ''user'' c (t_user_message e) = (d1, um)"
    and "ai_step e d1 user session (session_messages d1 pk) = Inl err"
  shows "messages (fst (add_message e d user pk data)) = messages d @ [um]
       \<and> role um = ''user'' \<and> content um = c \<and> c \<noteq> [] \<and> msg_session um = pk
       \<and> fst (snd (add_message e d user pk data)) \<in> {503, 500}"
proof -
  have am: "add_message e d user pk data = finish_turn e d1 pk um (Inl err)"
    using assms by (simp add: add_message_def)
  have d1: "messages d1 = messages d @ [um]" and um: "role um = ''user''" "content um = c"
    "msg_session um = pk"
    using assms(3) by (auto simp add: ChatMessage_create_def Let_def)
  have st: "fst (snd (finish_turn e d1 pk um (Inl err))) \<in> {503, 500}"
    by (cases err) (simp_all add: finish_turn_def)
  from am d1 um st validate_nonempty [OF assms(2)] show ?thesis
    by (simp add: finish_turn_Inl)
qed

theorem failed_turn_keeps_user_message_witness:
  "get_object ex_db 7 3 = Some ex_session
   \<and> NewChatMessageSerializer_validate (Some ''hello'') = Inr ''hello''
   \<and> ai_step ex_env_sys
        (ex_db\<lparr>messages := [\<lparr>msg_id = 1, msg_session = 3, role = ''user'', content = ''hello'',
                               timestamp = 10\<rparr>]\<rparr>) 7 ex_session
        (session_messages
          (ex_db\<lparr>messages := [\<lparr>msg_id = 1, msg_session = 3, role = ''user'', content = ''hello'',
                                 timestamp = 10\<rparr>]\<rparr>) 3)
       = Inl (RequestException ''timeout'')
   \<and> messages (fst (add_message ex_env_sys ex_db 7 3 (Some ''hello'')))
       = messages ex_db
         @ [\<lparr>msg_id = 1, msg_session = 3, role = ''user'', content = ''hello'', timestamp = 10\<rparr>]
   \<and> fst (snd (add_message ex_env_sys ex_db 7 3 (Some ''hello''))) = 503"
proof -
  let ?um = "\<lparr>msg_id = 1, msg_session = 3, role = ''user'', content = ''hello'', timestamp = 10\<rparr>"
  let ?d1 = "ex_db\<lparr>messages := [?um]\<rparr>"
  have h3: "ChatMessage_create ex_db 3 ''user'' ''hello'' (t_user_message ex_env_sys) = (?d1, ?um)"
    by (simp add: ex_times ex_create)
  have h4: "ai_step ex_env_sys ?d1 7 ex_session (session_messages ?d1 3)
       = Inl (RequestException ''timeout'')"
    by (simp add: ex_history ex_ai_step_sys)
  from failed_turn_keeps_user_message [OF ex_get_object ex_validate h3 h4]
  have "messages (fst (add_message ex_env_sys ex_db 7 3 (Some ''hello''))) = messages ex_db @ [?um]"
    by blast
  moreover have "fst (snd (add_message ex_env_sys ex_db 7 3 (Some ''hello''))) = 503"
    by (simp add: ex_turn_timeout)
  ultimately show ?thesis using ex_get_object ex_validate h4 by blast
qed

text \<open>
  C2. A request whose content is empty, or blank once white space is trimmed, or missing,
  leaves the store as it was; on a conversation of the requesting user the answer is the
  validation error of a blank field, with status 400.
\<close>

theorem empty_content_rejected:
  assumes "py_strip s = []"
  shows "fst (add_message e d user pk (Some s)) = d
       \<and> fst (add_message e d user pk None) = d
       \<and> (get_object d user pk = Some session \<longrightarrow>
            snd (add_message e d user pk (Some s)) = (400, ValidationFailed Blank))"
  using assms
  by (simp add: add_message_def NewChatMessageSerializer_validate_def split: option.splits)

theorem empty_content_rejected_witness:
  "py_strip '''' = ''''
   \<and> get_object ex_db 7 3 = Some ex_session
   \<and> add_message ex_env_ok ex_db 7 3 (Some '''') = (ex_db, (400, ValidationFailed Blank))"
proof -
  have h: "py_strip '''' = ''''" by (simp add: py_strip_def)
  from empty_content_rejected [OF h, of ex_env_ok ex_db 7 3 ex_session] ex_get_object
  have "fst (add_message ex_env_ok ex_db 7 3 (Some '''')) = ex_db"
    and "snd (add_message ex_env_ok ex_db 7 3 (Some '''')) = (400, ValidationFailed Blank)"
    by blast+
  then have "add_message ex_env_ok ex_db 7 3 (Some '''') = (ex_db, (400, ValidationFailed Blank))"
    by (simp add: prod_eq_iff)
  with h ex_get_object show ?thesis by blast
qed

text \<open>
  C5 (as stated, it fails). A turn whose provider call times out appends the user message
  and leaves \<open>updated_at\<close> of the conversation as it was.
\<close>

theorem updated_at_on_append_counterexample:
  "messages (fst (add_message ex_env_sys ex_db 7 3 (Some ''hello'')))
     = messages ex_db
       @ [\<lparr>msg_id = 1, msg_session = 3, role = ''user'', content = ''hello'', timestamp = 10\<rparr>]
   \<and> map_option updated_at (sessions ex_db 3) = Some 1
   \<and> map_option updated_at (sessions (fst (add_message ex_env_sys ex_db 7 3 (Some ''hello''))) 3)
       = Some 1"
  by (simp add: ex_turn_timeout) (simp add: ex_db_def ex_session_def)

text \<open>
  C5 (amended). In a turn on a conversation of the requesting user, \<open>updated_at\<close> is
  refreshed exactly when the turn stores an assistant message (status 201): the store then
  gains the user message and the assistant message, and \<open>updated_at\<close> of the conversation
  becomes the time of the save, with nothing else of the sessions changed. A turn with any
  other status leaves all sessions unchanged, although it appends the user message unless
  validation rejected the content.
\<close>

theorem updated_at_refreshed_on_completed_turn:
  assumes "get_object d user pk = Some session"
  shows "(fst (snd (add_message e d user pk data)) = 201 \<longrightarrow>
            sessions (fst (add_message e d user pk data))
              = (sessions d)(pk \<mapsto> session\<lparr>updated_at := t_session_save e\<rparr>)
            \<and> (\<exists>um am. messages (fst (add_message e d user pk data)) = messages d @ [um, am]
                  \<and> role um = ''user'' \<and> role am = ''assistant''))
       \<and> (fst (snd (add_message e d user pk data)) \<noteq> 201 \<longrightarrow>
            sessions (fst (add_message e d user pk data)) = sessions d
            \<and> (messages (fst (add_message e d user pk data)) = messages d
                \<or> (\<exists>um. messages (fst (add_message e d user pk data)) = messages d @ [um]
                      \<and> role um = ''user'')))"
proof (cases "NewChatMessageSerializer_validate data")
  case (Inl err)
  with assms show ?thesis by (simp add: add_message_def)
next
  case (Inr c)
  obtain d1 um where cr: "ChatMessage_create d pk ''user'' c (t_user_message e) = (d1, um)"
    by (cases "ChatMessage_create d pk ''user'' c (t_user_message e)")
  note f = ChatMessage_create_eq [OF cr]
  define outcome where "outcome = ai_step e d1 user session (session_messages d1 pk)"
  have am: "add_message e d user pk data = finish_turn e d1 pk um outcome"
    using assms Inr cr by (simp add: add_message_def outcome_def)
  have s1: "sessions d1 pk = Some session"
    using f get_object_Some [OF assms] by simp
  from finish_turn_cases [OF s1, of outcome e um] show ?thesis
  proof
    assume "\<exists>am. outcome = Inr (Some (content am)) \<and> content am \<noteq> [] \<and> role am = ''assistant''
            \<and> fst (snd (finish_turn e d1 pk um outcome)) = 201
            \<and> messages (fst (finish_turn e d1 pk um outcome)) = messages d1 @ [am]
            \<and> sessions (fst (finish_turn e d1 pk um outcome))
                = (sessions d1)(pk \<mapsto> session\<lparr>updated_at := t_session_save e\<rparr>)"
    then obtain a where a: "role a = ''assistant''"
        "fst (snd (finish_turn e d1 pk um outcome)) = 201"
        "messages (fst (finish_turn e d1 pk um outcome)) = messages d1 @ [a]"
        "sessions (fst (finish_turn e d1 pk um outcome))
                = (sessions d1)(pk \<mapsto> session\<lparr>updated_at := t_session_save e\<rparr>)"
      by blast
    have "messages (fst (add_message e d user pk data)) = messages d @ [um, a]"
      using a f by (simp add: am)
    with a f show ?thesis by (auto simp add: am)
  next
    assume b: "fst (snd (finish_turn e d1 pk um outcome)) \<in> {200, 503, 500}
            \<and> fst (finish_turn e d1 pk um outcome) = d1"
    then have "fst (snd (add_message e d user pk data)) \<noteq> 201" by (auto simp add: am)
    moreover have "sessions (fst (add_message e d user pk data)) = sessions d"
      using b f by (simp add: am)
    moreover have "messages (fst (add_message e d user pk data)) = messages d @ [um]"
      using b f by (simp add: am)
    ultimately show ?thesis using f by auto
  qed
qed

theorem updated_at_refreshed_on_completed_turn_witness:
  "get_object ex_db 7 3 = Some ex_session
   \<and> fst (snd (add_message ex_env_ok ex_db 7 3 (Some ''hello''))) = 201
   \<and> map_option updated_at (sessions ex_db 3) = Some 1
   \<and> map_option updated_at (sessions (fst (add_message ex_env_ok ex_db 7 3 (Some ''hello''))) 3)
       = Some 12"
proof -
  from updated_at_refreshed_on_completed_turn [OF ex_get_object, of ex_env_ok "Some ''hello''"]
    ex_turn_ok_status
  have "sessions (fst (add_message ex_env_ok ex_db 7 3 (Some ''hello'')))
      = (sessions ex_db)(3 \<mapsto> ex_session\<lparr>updated_at := t_session_save ex_env_ok\<rparr>)"
    by blast
  then have "map_option updated_at (sessions (fst (add_message ex_env_ok ex_db 7 3 (Some ''hello''))) 3)
       = Some 12"
    by (simp add: ex_times)
  moreover have "map_option updated_at (sessions ex_db 3) = Some 1"
    by (simp add: ex_db_def ex_session_def)
  ultimately show ?thesis using ex_get_object ex_turn_ok_status by blast
qed

end
